theory Spec2Isabelle
  imports Main
begin

section \<open>Python values, errors and slices\<close>

text \<open>
  Every \<open>raise\<close> of the source, and every failure of a library operation it calls, is a
  value: a computation returns \<open>Inl\<close> of the error or \<open>Inr\<close> of its result.
\<close>

datatype py_error =
  TypeError | AttributeError | ZeroDivisionError | IndexError | ValueError | RuntimeError

fun and_then :: "py_error + 'a \<Rightarrow> ('a \<Rightarrow> py_error + 'b) \<Rightarrow> py_error + 'b" where
  "and_then (Inl x) f = Inl x"
| "and_then (Inr v) f = f v"

text \<open>
  A slice bound of Python, for a sequence of length \<open>n\<close>: a negative bound counts from the
  end, and every bound is clipped to \<open>0..n\<close>.
\<close>

definition slice_index :: "nat \<Rightarrow> int \<Rightarrow> nat" where
  "slice_index n i = (if i < 0 then nat (i + int n) else min (nat i) n)"

text \<open>\<open>xs[start:stop]\<close>: empty when the clipped bounds cross.\<close>

definition py_slice :: "'b list \<Rightarrow> int \<Rightarrow> int \<Rightarrow> 'b list" where
  "py_slice xs start stop =
     (let lo = slice_index (length xs) start;
          hi = slice_index (length xs) stop
      in take (hi - lo) (drop lo xs))"

section \<open>Stages and the stage stack (transformer_sd3_cache.py)\<close>

text \<open>
  Tensors are values of an arbitrary type \<open>'a\<close>. The numeric kernels are not part of the
  executor: a stage carries them as two functions, \<open>primary_stream\<close> for the computation of
  \<open>hidden_states\<close> (normalisation, attention, gated residuals, feed-forward) and
  \<open>context_stream\<close> for that of \<open>encoder_hidden_states\<close>. Both read the incoming states and the
  time embedding and may fail. The stage's own decision is \<open>context_pre_only\<close>.
\<close>

record ('a, 't) block =
  context_pre_only :: bool
  primary_stream :: "'a \<Rightarrow> 'a option \<Rightarrow> 't \<Rightarrow> py_error + 'a"
  context_stream :: "'a \<Rightarrow> 'a option \<Rightarrow> 't \<Rightarrow> py_error + 'a"

text \<open>
  The model object: its stage list, and the tensor addition and subtraction the executor
  applies (they fail on operands that do not broadcast).
\<close>

record ('a, 't) transformer =
  transformer_blocks :: "('a, 't) block list"
  tadd :: "'a \<Rightarrow> 'a \<Rightarrow> py_error + 'a"
  tsub :: "'a \<Rightarrow> 'a \<Rightarrow> py_error + 'a"

text \<open>
  \<open>JointTransformerCacheBlock.construct\<close>: returns
  \<open>(encoder_hidden_states, hidden_states)\<close>; a context-pre-only stage returns \<open>None\<close> for
  the auxiliary stream.
\<close>

definition block_construct ::
  "('a, 't) block \<Rightarrow> 'a \<Rightarrow> 'a option \<Rightarrow> 't \<Rightarrow> py_error + ('a option \<times> 'a)" where
  "block_construct blk hidden_states encoder_hidden_states temb =
     and_then (primary_stream blk hidden_states encoder_hidden_states temb) (\<lambda>hs.
       if context_pre_only blk then Inr (None, hs)
       else and_then (context_stream blk hidden_states encoder_hidden_states temb) (\<lambda>ehs.
         Inr (Some ehs, hs)))"

text \<open>
  The controlnet residual of one loop iteration (lines 259-261). \<open>index_block\<close> is the
  counter of \<open>enumerate\<close>; \<open>//\<close> by zero and an index past the end of the list raise.
\<close>

definition controlnet_residual ::
  "('a, 't) transformer \<Rightarrow> 'a list option \<Rightarrow> ('a, 't) block \<Rightarrow> nat \<Rightarrow> 'a \<Rightarrow> py_error + 'a" where
  "controlnet_residual self block_controlnet_hidden_states blk index_block hidden_states =
     (case block_controlnet_hidden_states of
        None \<Rightarrow> Inr hidden_states
      | Some residuals \<Rightarrow>
          if context_pre_only blk then Inr hidden_states
          else if length residuals = 0 then Inl ZeroDivisionError
          else
            (let interval_control = length (transformer_blocks self) div length residuals
             in if interval_control = 0 then Inl ZeroDivisionError
                else if index_block div interval_control < length residuals
                then tadd self hidden_states (residuals ! (index_block div interval_control))
                else Inl IndexError))"

text \<open>
  The loop of \<open>forward_blocks_range\<close> over the stages of the slice, \<open>index_block\<close> counting
  the iterations.
\<close>

fun blocks_loop ::
  "('a, 't) transformer \<Rightarrow> 'a list option \<Rightarrow> 't \<Rightarrow> nat \<Rightarrow> ('a, 't) block list \<Rightarrow>
   'a \<Rightarrow> 'a option \<Rightarrow> py_error + ('a \<times> 'a option)" where
  "blocks_loop self ctrl temb index_block [] hidden_states encoder_hidden_states =
     Inr (hidden_states, encoder_hidden_states)"
| "blocks_loop self ctrl temb index_block (blk # rest) hidden_states encoder_hidden_states =
     and_then (block_construct blk hidden_states encoder_hidden_states temb) (\<lambda>(ehs, hs).
       and_then (controlnet_residual self ctrl blk index_block hs) (\<lambda>hs'.
         blocks_loop self ctrl temb (Suc index_block) rest hs' ehs))"

text \<open>
  \<open>forward_blocks_range\<close>: \<open>enumerate\<close> runs over the slice
  \<open>transformer_blocks[start_idx:end_idx]\<close>, so its counter starts at 0 whatever
  \<open>start_idx\<close> is.
\<close>

definition forward_blocks_range ::
  "('a, 't) transformer \<Rightarrow> 'a \<Rightarrow> 'a option \<Rightarrow> 'a list option \<Rightarrow> 't \<Rightarrow> int \<Rightarrow> int \<Rightarrow>
   py_error + ('a \<times> 'a option)" where
  "forward_blocks_range self hidden_states encoder_hidden_states
       block_controlnet_hidden_states temb start_idx end_idx =
     blocks_loop self block_controlnet_hidden_states temb 0
       (py_slice (transformer_blocks self) start_idx end_idx)
       hidden_states encoder_hidden_states"

section \<open>The block-range delta-cache executor\<close>

text \<open>\<open>x.copy()\<close> of an optional tensor: \<open>None\<close> has no such attribute.\<close>

definition py_copy :: "'a option \<Rightarrow> py_error + 'a" where
  "py_copy x = (case x of None \<Rightarrow> Inl AttributeError | Some a \<Rightarrow> Inr a)"

text \<open>\<open>a + y\<close> and \<open>x - b\<close> where the other operand may be \<open>None\<close>: a TypeError then.\<close>

definition add_opt :: "('a, 't) transformer \<Rightarrow> 'a \<Rightarrow> 'a option \<Rightarrow> py_error + 'a" where
  "add_opt self a y = (case y of None \<Rightarrow> Inl TypeError | Some b \<Rightarrow> tadd self a b)"

definition opt_sub :: "('a, 't) transformer \<Rightarrow> 'a option \<Rightarrow> 'a \<Rightarrow> py_error + 'a" where
  "opt_sub self x b = (case x of None \<Rightarrow> Inl TypeError | Some a \<Rightarrow> tsub self a b)"

text \<open>
  \<open>forward_blocks\<close>. The cache window descriptor is the 4-tuple
  \<open>(cache_start, step_stride, window_length, start_use_step)\<close>, \<open>None\<close> by default;
  the result is \<open>((encoder_hidden_states, hidden_states), delta_cache, delta_cache_hidden)\<close>.
\<close>

definition forward_blocks ::
  "('a, 't) transformer \<Rightarrow> 'a \<Rightarrow> 'a option \<Rightarrow> 'a list option \<Rightarrow> 't \<Rightarrow> bool \<Rightarrow> bool \<Rightarrow>
   (int \<times> int \<times> int \<times> int) option \<Rightarrow> 'a option \<Rightarrow> 'a option \<Rightarrow>
   py_error + (('a option \<times> 'a) \<times> 'a option \<times> 'a option)" where
  "forward_blocks self hidden_states encoder_hidden_states block_controlnet_hidden_states temb
       use_cache if_skip cache_params delta_cache delta_cache_hidden =
     (if \<not> use_cache then
        and_then (forward_blocks_range self hidden_states encoder_hidden_states
                    block_controlnet_hidden_states temb 0
                    (int (length (transformer_blocks self))))
          (\<lambda>(hs, ehs). Inr ((ehs, hs), delta_cache, delta_cache_hidden))
      else
        (case cache_params of
           None \<Rightarrow> Inl TypeError
         | Some (cache_start, step_stride, window_length, start_use_step) \<Rightarrow>
             and_then (forward_blocks_range self hidden_states encoder_hidden_states
                         block_controlnet_hidden_states temb 0 cache_start)
               (\<lambda>(hs0, ehs0).
                  let cache_end = cache_start + window_length;
                      hidden_states_before_cache = hs0
                  in and_then (py_copy ehs0) (\<lambda>encoder_hidden_states_before_cache.
                       if \<not> if_skip then
                         and_then (forward_blocks_range self hs0 ehs0
                                     block_controlnet_hidden_states temb cache_start cache_end)
                           (\<lambda>(hs1, ehs1).
                              and_then (tsub self hs1 hidden_states_before_cache) (\<lambda>dc.
                                and_then (opt_sub self ehs1 encoder_hidden_states_before_cache)
                                  (\<lambda>dch.
                                     and_then (forward_blocks_range self hs1 ehs1
                                                 block_controlnet_hidden_states temb cache_end
                                                 (int (length (transformer_blocks self))))
                                       (\<lambda>(hs2, ehs2). Inr ((ehs2, hs2), Some dc, Some dch)))))
                       else
                         and_then (add_opt self hidden_states_before_cache delta_cache)
                           (\<lambda>hs1.
                              and_then (add_opt self encoder_hidden_states_before_cache
                                          delta_cache_hidden)
                                (\<lambda>ehs1.
                                   and_then (forward_blocks_range self hs1 (Some ehs1)
                                               block_controlnet_hidden_states temb cache_end
                                               (int (length (transformer_blocks self))))
                                     (\<lambda>(hs2, ehs2).
                                        Inr ((ehs2, hs2), delta_cache, delta_cache_hidden))))))))"

section \<open>A small stack for concrete runs\<close>

text \<open>
  Integer "tensors" with exact addition and subtraction, and three stages of which the
  last is context-pre-only, as in the model's constructor
  (\<open>context_pre_only = (i == num_layers - 1)\<close>). Stage \<open>k\<close> maps \<open>hidden_states\<close> to
  \<open>2 * hidden_states + k\<close> and adds \<open>hidden_states\<close> to the auxiliary stream.
\<close>

definition example_block :: "bool \<Rightarrow> int \<Rightarrow> (int, unit) block" where
  "example_block pre k =
     \<lparr>context_pre_only = pre,
      primary_stream = (\<lambda>h e t. Inr (2 * h + k)),
      context_stream = (\<lambda>h e t. case e of None \<Rightarrow> Inl TypeError | Some c \<Rightarrow> Inr (c + h))\<rparr>"

definition example_model :: "(int, unit) transformer" where
  "example_model =
     \<lparr>transformer_blocks =
        [example_block False 1, example_block False 2, example_block True 3],
      tadd = (\<lambda>a b. Inr (a + b)),
      tsub = (\<lambda>a b. Inr (a - b))\<rparr>"

text \<open>The same stack without its terminal stage: the auxiliary stream survives.\<close>

definition example_model_open :: "(int, unit) transformer" where
  "example_model_open =
     \<lparr>transformer_blocks = [example_block False 1, example_block False 2],
      tadd = (\<lambda>a b. Inr (a + b)),
      tsub = (\<lambda>a b. Inr (a - b))\<rparr>"

section \<open>Double-precision arithmetic on sizes\<close>

text \<open>
  A Python float is a binary64 number; it is kept as the exact ratio that
  \<open>float.as_integer_ratio\<close> returns, a numerator and a positive denominator.
\<close>

type_synonym py_float = "int \<times> int"

text \<open>The float literal \<open>2.2\<close>: the binary64 number nearest to 22/10.\<close>

definition float_2_2 :: py_float where
  "float_2_2 = (2476979795053773, 1125899906842624)"

text \<open>\<open>int.bit_length\<close>.\<close>

fun bit_length :: "nat \<Rightarrow> nat" where
  "bit_length n = (if n = 0 then 0 else Suc (bit_length (n div 2)))"

declare bit_length.simps [simp del]

text \<open>
  The binary exponent \<open>e\<close> of a positive quotient \<open>a / b\<close>:
  \<open>2 ^ e \<le> a / b < 2 ^ (e + 1)\<close>.
\<close>

definition binary_exponent :: "nat \<Rightarrow> nat \<Rightarrow> int" where
  "binary_exponent a b =
     (if b \<le> a then int (bit_length (a div b)) - 1
      else - int (bit_length ((b + a - 1) div a - 1)))"

text \<open>
  Rounding the positive quotient \<open>a / b\<close> to the nearest binary64 number, ties to even
  (normal range: the quotients of sequence lengths stay there). The quotient is scaled
  by \<open>2 ^ s\<close> so that its integer part has 53 bits; the result \<open>(n, s)\<close> stands for
  \<open>n / 2 ^ s\<close>.
\<close>

definition round_double :: "nat \<Rightarrow> nat \<Rightarrow> nat \<times> int" where
  "round_double a b =
     (let s = 52 - binary_exponent a b;
          num = (if 0 \<le> s then a * 2 ^ nat s else a);
          den = (if 0 \<le> s then b else b * 2 ^ nat (- s));
          f = num div den;
          r = num mod den;
          n = (if 2 * r < den then f
               else if den < 2 * r then f + 1
               else if even f then f else f + 1)
      in (n, s))"

text \<open>The integer part of \<open>n / 2 ^ s\<close>.\<close>

definition int_of_scaled :: "nat \<times> int \<Rightarrow> nat" where
  "int_of_scaled v =
     (case v of (n, s) \<Rightarrow> if 0 \<le> s then n div 2 ^ nat s else n * 2 ^ nat (- s))"

text \<open>
  \<open>int(n / x)\<close> for an integer \<open>n \<ge> 0\<close> and a float \<open>x\<close>: true division in binary64,
  then truncation towards zero.
\<close>

definition int_div_float :: "nat \<Rightarrow> py_float \<Rightarrow> py_error + int" where
  "int_div_float n x =
     (case x of (p, q) \<Rightarrow>
        if p = 0 then Inl ZeroDivisionError
        else if n = 0 then Inr 0
        else if 0 < p then Inr (int (int_of_scaled (round_double (n * nat q) (nat p))))
        else Inr (- int (int_of_scaled (round_double (n * nat q) (nat (- p))))))"

text \<open>
  \<open>int(math.sqrt(n))\<close>: the integer square root (the correctly rounded binary64 square
  root of an integer below \<open>2 ^ 52\<close> truncates to it).
\<close>

fun int_sqrt :: "nat \<Rightarrow> nat" where
  "int_sqrt n =
     (if n = 0 then 0
      else let r = 2 * int_sqrt (n div 4)
           in if (r + 1) * (r + 1) \<le> n then r + 1 else r)"

declare int_sqrt.simps [simp del]

section \<open>Tensor shapes and the library operations on them\<close>

type_synonym shape = "nat list"

datatype interp_method = Nearest | Bilinear

text \<open>\<open>x.reshape(target)\<close>: the element counts must agree.\<close>

definition reshape :: "shape \<Rightarrow> shape \<Rightarrow> py_error + shape" where
  "reshape x target = (if prod_list x = prod_list target then Inr target else Inl ValueError)"

text \<open>\<open>x.reshape(b, -1, c)\<close>: the middle dimension is inferred.\<close>

definition reshape_infer :: "shape \<Rightarrow> nat \<Rightarrow> nat \<Rightarrow> py_error + shape" where
  "reshape_infer x b c =
     (if b * c = 0 then Inl ValueError
      else if prod_list x mod (b * c) = 0 then Inr [b, prod_list x div (b * c), c]
      else Inl ValueError)"

text \<open>
  \<open>ops.interpolate(x, size=(new_h, new_w), mode=method)\<close> on a 4-D tensor
  \<open>(N, C, H, W)\<close>: the result is \<open>(N, C, new_h, new_w)\<close>; a target size that is not
  positive is rejected.
\<close>

definition interpolate :: "shape \<Rightarrow> int \<times> int \<Rightarrow> interp_method \<Rightarrow> py_error + shape" where
  "interpolate x target method =
     (case x of
        [n, c, h, w] \<Rightarrow>
          if 0 < fst target \<and> 0 < snd target
          then Inr [n, c, nat (fst target), nat (snd target)]
          else Inl ValueError
      | _ \<Rightarrow> Inl ValueError)"

text \<open>\<open>downsample\<close> (attention_cache.py, lines 108-116).\<close>

definition downsample :: "shape \<Rightarrow> py_float \<Rightarrow> interp_method \<Rightarrow> py_error + shape" where
  "downsample hidden_states merge_factor method =
     (case hidden_states of
        [batch_size, seq_len, channel] \<Rightarrow>
          (let cur_h = int_sqrt seq_len; cur_w = cur_h
           in and_then (int_div_float cur_h merge_factor) (\<lambda>new_h.
              and_then (int_div_float cur_w merge_factor) (\<lambda>new_w.
              and_then (reshape [batch_size, channel, seq_len] [batch_size, channel, cur_h, cur_w])
                (\<lambda>grid.
              and_then (interpolate grid (new_h, new_w) method) (\<lambda>merged.
                case merged of
                  [n, c, h, w] \<Rightarrow> reshape_infer [n, h, w, c] batch_size channel
                | _ \<Rightarrow> Inl ValueError)))))
      | _ \<Rightarrow> Inl ValueError)"



section \<open>The attention operator\<close>

text \<open>
  The attention module, as far as shapes go: the number of heads, the input widths of the
  projections, the inner width, the output width, and the fields the subclass adds.
\<close>

record attention =
  heads :: nat
  query_dim :: nat
  added_kv_proj_dim :: nat
  inner_dim :: nat
  out_dim :: nat
  attn_context_pre_only :: bool
  layer_idx :: int
  use_todo :: bool

text \<open>A dense layer acts on the last axis, whose length must be the layer's input width.\<close>

definition dense :: "nat \<Rightarrow> nat \<Rightarrow> shape \<Rightarrow> py_error + shape" where
  "dense in_features out_features x =
     (if x = [] then Inl ValueError
      else if last x = in_features then Inr (butlast x @ [out_features])
      else Inl ValueError)"

text \<open>\<open>ops.cat([x, y], axis=1)\<close>: same rank, same lengths on every other axis.\<close>

definition cat_axis1 :: "shape \<Rightarrow> shape \<Rightarrow> py_error + shape" where
  "cat_axis1 x y =
     (if length x = length y \<and> 2 \<le> length x \<and> x[1 := 0] = y[1 := 0]
      then Inr (x[1 := x ! 1 + y ! 1])
      else Inl ValueError)"

text \<open>
  Modelled from the spec: the head reshapes of the base attention class, which is not in
  src/. \<open>head_to_batch_dim\<close> moves the heads of a \<open>(batch, seq, dim)\<close> tensor into the batch
  axis and \<open>batch_to_head_dim\<close> moves them back.
\<close>

definition head_to_batch_dim :: "attention \<Rightarrow> shape \<Rightarrow> py_error + shape" where
  "head_to_batch_dim attn x =
     (case x of
        [batch_size, seq_len, d] \<Rightarrow>
          if heads attn = 0 then Inl ZeroDivisionError
          else if d mod heads attn = 0
          then Inr [batch_size * heads attn, seq_len, d div heads attn]
          else Inl ValueError
      | _ \<Rightarrow> Inl ValueError)"

definition batch_to_head_dim :: "attention \<Rightarrow> shape \<Rightarrow> py_error + shape" where
  "batch_to_head_dim attn x =
     (case x of
        [batch_size, seq_len, d] \<Rightarrow>
          if heads attn = 0 then Inl ZeroDivisionError
          else if batch_size mod heads attn = 0
          then Inr [batch_size div heads attn, seq_len, d * heads attn]
          else Inl ValueError
      | _ \<Rightarrow> Inl ValueError)"

text \<open>
  The fused attention kernel on \<open>(batch, seq, hidden)\<close> operands: key and value have one
  shape, batch and hidden agree with the query's, and the output has the query's shape.
\<close>

definition flash_attention_score :: "shape \<Rightarrow> shape \<Rightarrow> shape \<Rightarrow> py_error + shape" where
  "flash_attention_score query key val =
     (case (query, key) of
        ([b, s1, h], [b', s2, h']) \<Rightarrow>
          if b = b' \<and> h = h' \<and> key = val then Inr query else Inl ValueError
      | _ \<Rightarrow> Inl ValueError)"

text \<open>\<open>x[:, :n]\<close> and \<open>x[:, n:]\<close> on a tensor of rank at least 2.\<close>

definition take_axis1 :: "nat \<Rightarrow> shape \<Rightarrow> py_error + shape" where
  "take_axis1 n x = (if length x < 2 then Inl IndexError else Inr (x[1 := min n (x ! 1)]))"

definition drop_axis1 :: "nat \<Rightarrow> shape \<Rightarrow> py_error + shape" where
  "drop_axis1 n x = (if length x < 2 then Inl IndexError else Inr (x[1 := x ! 1 - n]))"

text \<open>
  \<open>x.view(b, c, h * w).swapaxes(1, 2)\<close> of a 4-D tensor, and the way back:
  \<open>x.swapaxes(-1, -2).reshape(batch_size, channel, height, width)\<close>.
\<close>

definition flatten_spatial :: "shape \<Rightarrow> shape" where
  "flatten_spatial x =
     (case x of [b, c, h, w] \<Rightarrow> [b, h * w, c] | _ \<Rightarrow> x)"

definition restore_spatial :: "shape \<Rightarrow> nat \<Rightarrow> shape \<Rightarrow> py_error + shape" where
  "restore_spatial x batch_size dims =
     (case dims of
        [b, channel, height, width] \<Rightarrow> reshape x [batch_size, channel, height, width]
      | _ \<Rightarrow> Inl TypeError)"

text \<open>
  Lines 148-149 of \<open>JointAttnProcessor.__call__\<close>: the tensor the key and value
  projections read.
\<close>

definition kv_hidden_states :: "bool \<Rightarrow> int \<Rightarrow> shape \<Rightarrow> py_error + shape" where
  "kv_hidden_states use_downsample layer_index hidden_states =
     (if use_downsample \<and> layer_index \<le> 11
      then downsample hidden_states float_2_2 Bilinear
      else Inr hidden_states)"

text \<open>
  \<open>JointAttnProcessor.__call__\<close> on shapes; the result is
  \<open>(hidden_states, encoder_hidden_states)\<close>.
\<close>

definition joint_attn_call ::
  "attention \<Rightarrow> shape \<Rightarrow> shape option \<Rightarrow> int \<Rightarrow> bool \<Rightarrow> py_error + (shape \<times> shape)" where
  "joint_attn_call attn hidden_states encoder_hidden_states layer_index use_downsample =
     (case encoder_hidden_states of
        None \<Rightarrow> Inl AttributeError
      | Some context_states \<Rightarrow>
          (let residual = hidden_states;
               input_ndim = length hidden_states;
               hs = (if input_ndim = 4 then flatten_spatial hidden_states else hidden_states);
               context_input_ndim = length context_states;
               ehs = (if context_input_ndim = 4 then flatten_spatial context_states
                      else context_states);
               dims = (if context_input_ndim = 4 then context_states else hidden_states)
           in if ehs = [] then Inl IndexError
              else
                (let batch_size = hd ehs
                 in and_then (dense (query_dim attn) (inner_dim attn) hs) (\<lambda>query.
                    and_then (kv_hidden_states use_downsample layer_index hs) (\<lambda>hs_kv.
                    and_then (dense (query_dim attn) (inner_dim attn) hs_kv) (\<lambda>key.
                    and_then (dense (query_dim attn) (inner_dim attn) hs_kv) (\<lambda>val.
                    and_then (dense (added_kv_proj_dim attn) (inner_dim attn) ehs) (\<lambda>q_proj.
                    and_then (dense (added_kv_proj_dim attn) (inner_dim attn) ehs) (\<lambda>k_proj.
                    and_then (dense (added_kv_proj_dim attn) (inner_dim attn) ehs) (\<lambda>v_proj.
                    and_then (cat_axis1 query q_proj) (\<lambda>query.
                    and_then (cat_axis1 key k_proj) (\<lambda>key.
                    and_then (cat_axis1 val v_proj) (\<lambda>val.
                    and_then (head_to_batch_dim attn query) (\<lambda>query.
                    and_then (head_to_batch_dim attn key) (\<lambda>key.
                    and_then (head_to_batch_dim attn val) (\<lambda>val.
                    and_then (flash_attention_score query key val) (\<lambda>scores.
                    and_then (batch_to_head_dim attn scores) (\<lambda>joint.
                    if length residual < 2 then Inl IndexError
                    else
                    and_then (take_axis1 (residual ! 1) joint) (\<lambda>hs_part.
                    and_then (drop_axis1 (residual ! 1) joint) (\<lambda>ehs_part.
                    and_then (dense (inner_dim attn) (out_dim attn) hs_part) (\<lambda>hs_out.
                    and_then (if attn_context_pre_only attn then Inr ehs_part
                              else dense (inner_dim attn) (out_dim attn) ehs_part) (\<lambda>ehs_out.
                    and_then (if input_ndim = 4
                              then restore_spatial hs_out batch_size dims
                              else Inr hs_out) (\<lambda>hs_ret.
                    and_then (if context_input_ndim = 4
                              then restore_spatial ehs_out batch_size dims
                              else Inr ehs_out) (\<lambda>ehs_ret.
                    Inr (hs_ret, ehs_ret)))))))))))))))))))))))))"

text \<open>\<open>Attention.construct\<close>: the processor gets the module's layer index and flag.\<close>

definition attention_construct ::
  "attention \<Rightarrow> shape \<Rightarrow> shape option \<Rightarrow> py_error + (shape \<times> shape)" where
  "attention_construct attn hidden_states encoder_hidden_states =
     joint_attn_call attn hidden_states encoder_hidden_states (layer_idx attn) (use_todo attn)"


section \<open>Properties of the executor\<close>

lemmas executor_eval =
  forward_blocks_def forward_blocks_range_def py_slice_def slice_index_def
  block_construct_def controlnet_residual_def py_copy_def add_opt_def opt_sub_def
  example_model_def example_model_open_def example_block_def Let_def

lemma and_then_Inr_iff:
  "and_then m f = Inr r \<longleftrightarrow> (\<exists>v. m = Inr v \<and> f v = Inr r)"
  by (cases m) auto

lemma py_copy_Inr_iff: "py_copy x = Inr a \<longleftrightarrow> x = Some a"
  by (cases x) (auto simp: py_copy_def)

lemma add_opt_Inr_iff:
  "add_opt self a y = Inr r \<longleftrightarrow> (\<exists>b. y = Some b \<and> tadd self a b = Inr r)"
  by (cases y) (auto simp: add_opt_def)

lemma opt_sub_Inr_iff:
  "opt_sub self x b = Inr r \<longleftrightarrow> (\<exists>a. x = Some a \<and> tsub self a b = Inr r)"
  by (cases x) (auto simp: opt_sub_def)



text \<open>
  C1. In CACHE_SKIP mode (\<open>use_cache\<close> and \<open>if_skip\<close> both true) with a supplied delta
  pair, the invocation returns exactly when the pre-window range returns with the
  auxiliary state present, both additions succeed and the post-window range returns;
  the state entering the post-window range is the pre-window state plus the supplied
  delta, for both streams, as the addition produced it; and the two delta tensors come
  back unchanged.
\<close>

theorem cache_skip_applies_supplied_delta:
  "forward_blocks self hs ehs ctrl temb True True
      (Some (cache_start, step_stride, window_length, start_use_step))
      (Some delta_cache) (Some delta_cache_hidden) = Inr ((ehs_out, hs_out), dc_out, dch_out)
   \<longleftrightarrow>
   dc_out = Some delta_cache \<and> dch_out = Some delta_cache_hidden \<and>
   (\<exists>hs0 ehs0 hs1 ehs1.
      forward_blocks_range self hs ehs ctrl temb 0 cache_start = Inr (hs0, Some ehs0) \<and>
      tadd self hs0 delta_cache = Inr hs1 \<and>
      tadd self ehs0 delta_cache_hidden = Inr ehs1 \<and>
      forward_blocks_range self hs1 (Some ehs1) ctrl temb (cache_start + window_length)
        (int (length (transformer_blocks self))) = Inr (hs_out, ehs_out))"
  by (auto simp: forward_blocks_def and_then_Inr_iff py_copy_Inr_iff add_opt_Inr_iff Let_def)

theorem cache_skip_applies_supplied_delta_witness:
  "\<exists>hs0 ehs0 hs1 ehs1.
      forward_blocks_range example_model 0 (Some 0) None () 0 1 = Inr (hs0, Some ehs0) \<and>
      tadd example_model hs0 5 = Inr hs1 \<and>
      tadd example_model ehs0 7 = Inr ehs1 \<and>
      forward_blocks_range example_model hs1 (Some ehs1) None () (1 + 1)
        (int (length (transformer_blocks example_model))) = Inr (15, None)"
proof -
  have "forward_blocks example_model 0 (Some 0) None () True True (Some (1, 0, 1, 0))
          (Some 5) (Some 7) = Inr ((None, 15), Some 5, Some 7)"
    by (simp add: executor_eval)
  then show ?thesis
    unfolding cache_skip_applies_supplied_delta by simp
qed

text \<open>
  C2. In CACHE_RECOMPUTE mode (\<open>use_cache\<close> true, \<open>if_skip\<close> false) the invocation returns
  exactly when the pre-window range, the window range and the post-window range all
  return and the two subtractions succeed; the returned delta artifacts are then the
  state after the window range minus the state before it, for both streams. The incoming
  delta arguments do not influence the result.
\<close>

theorem cache_recompute_records_window_delta:
  "(forward_blocks self hs ehs ctrl temb True False
      (Some (cache_start, step_stride, window_length, start_use_step))
      dc_in dch_in = Inr ((ehs_out, hs_out), dc_out, dch_out)
   \<longleftrightarrow>
   (\<exists>hs0 ehs0 hs1 ehs1 dc dch.
      forward_blocks_range self hs ehs ctrl temb 0 cache_start = Inr (hs0, Some ehs0) \<and>
      forward_blocks_range self hs0 (Some ehs0) ctrl temb cache_start
        (cache_start + window_length) = Inr (hs1, Some ehs1) \<and>
      tsub self hs1 hs0 = Inr dc \<and> tsub self ehs1 ehs0 = Inr dch \<and>
      dc_out = Some dc \<and> dch_out = Some dch \<and>
      forward_blocks_range self hs1 (Some ehs1) ctrl temb (cache_start + window_length)
        (int (length (transformer_blocks self))) = Inr (hs_out, ehs_out)))
   \<and>
   forward_blocks self hs ehs ctrl temb True False
      (Some (cache_start, step_stride, window_length, start_use_step)) dc_in dch_in =
   forward_blocks self hs ehs ctrl temb True False
      (Some (cache_start, step_stride, window_length, start_use_step)) dc_in' dch_in'"
  by (auto simp: forward_blocks_def and_then_Inr_iff py_copy_Inr_iff opt_sub_Inr_iff Let_def)

theorem cache_recompute_records_window_delta_witness:
  "\<exists>hs0 ehs0 hs1 ehs1 dc dch.
      forward_blocks_range example_model 0 (Some 0) None () 0 1 = Inr (hs0, Some ehs0) \<and>
      forward_blocks_range example_model hs0 (Some ehs0) None () 1 (1 + 1) =
        Inr (hs1, Some ehs1) \<and>
      tsub example_model hs1 hs0 = Inr dc \<and> tsub example_model ehs1 ehs0 = Inr dch \<and>
      Some (3::int) = Some dc \<and> Some (1::int) = Some dch \<and>
      forward_blocks_range example_model hs1 (Some ehs1) None () (1 + 1)
        (int (length (transformer_blocks example_model))) = Inr (11, None)"
proof -
  have "forward_blocks example_model 0 (Some 0) None () True False (Some (1, 0, 1, 0))
          (Some 100) None = Inr ((None, 11), Some 3, Some 1)"
    by (simp add: executor_eval)
  then show ?thesis
    using cache_recompute_records_window_delta
      [of example_model 0 "Some 0" None "()" 1 0 1 0 "Some 100" None None 11 "Some 3" "Some 1"]
    by simp
qed

text \<open>
  C9. The executor's result does not depend on the \<open>step_stride\<close> and \<open>start_use_step\<close>
  fields of the cache window descriptor: two invocations that differ only in
  \<open>cache_params[1]\<close> and \<open>cache_params[3]\<close> return the same states and delta artifacts
  (or fail with the same error).
\<close>

theorem forward_blocks_ignores_stride_and_start_step:
  "forward_blocks self hidden_states encoder_hidden_states ctrl temb use_cache if_skip
     (Some (cache_start, step_stride, window_length, start_use_step))
     delta_cache delta_cache_hidden =
   forward_blocks self hidden_states encoder_hidden_states ctrl temb use_cache if_skip
     (Some (cache_start, step_stride', window_length, start_use_step'))
     delta_cache delta_cache_hidden"
  by (simp add: forward_blocks_def)

text \<open>
  C6. CACHE_SKIP without a prior delta (\<open>delta_cache = None\<close>) never returns a result:
  whatever the input, the invocation ends in an error (that of the pre-window range, the
  missing auxiliary state, or the addition of \<open>None\<close> to the pre-window state). No zero
  delta is substituted.
\<close>

theorem cache_skip_without_delta_raises:
  "\<exists>err. forward_blocks self hs ehs ctrl temb True True cache_params None delta_cache_hidden =
     Inl err"
proof (cases cache_params)
  case None
  then show ?thesis by (simp add: forward_blocks_def)
next
  case (Some cp)
  obtain cs st wl su where cp: "cp = (cs, st, wl, su)" by (cases cp) auto
  show ?thesis
  proof (cases "forward_blocks_range self hs ehs ctrl temb 0 cs")
    case (Inl e)
    then show ?thesis using Some cp by (simp add: forward_blocks_def)
  next
    case (Inr r)
    obtain h0 e0 where r: "r = (h0, e0)" by (cases r) auto
    show ?thesis using Some cp Inr r
      by (cases e0) (simp_all add: forward_blocks_def py_copy_def add_opt_def)
  qed
qed




text \<open>
  C4 at a concrete input. Stage 1 of the three-stage stack, run as the range \<open>[1, 2)\<close>
  with three controlnet residuals \<open>[10, 20, 30]\<close> (bucket size 3 // 3 = 1): the stage
  itself turns \<open>hidden_states = 0\<close> into 2, and the range returns 12, that is, it added
  residual 0 (the position in the slice) and not residual 1 (the stage's global index
  divided by the bucket size), which would give 22 as the same step does when it is
  handed the global index.
\<close>

theorem range_residual_index_is_slice_position:
  "forward_blocks_range example_model 0 (Some 0) (Some [10, 20, 30]) () 1 2 =
     Inr (12, Some 0) \<and>
   block_construct (transformer_blocks example_model ! 1) 0 (Some 0) () = Inr (Some 0, 2) \<and>
   controlnet_residual example_model (Some [10, 20, 30])
     (transformer_blocks example_model ! 1) 1 2 = Inr 22"
  by (simp add: executor_eval)

text \<open>
  C3 at a concrete input, with controlnet residuals \<open>[10, 20, 30]\<close> and the window
  \<open>[0, 1)\<close>. The NO_CACHE run ends with \<open>hidden_states = 91\<close>, the CACHE_RECOMPUTE run
  with 71. Both runs leave stage 0 with the state \<open>(11, 0)\<close>; stage 1, which lies after
  the window, then yields 44 in the NO_CACHE run (residual 20) and 34 in the
  CACHE_RECOMPUTE run (residual 10).
\<close>

theorem stages_after_window_differ_with_residuals:
  "forward_blocks example_model 0 (Some 0) (Some [10, 20, 30]) () False False None None None =
     Inr ((None, 91), None, None) \<and>
   forward_blocks example_model 0 (Some 0) (Some [10, 20, 30]) () True False
     (Some (0, 0, 1, 0)) None None = Inr ((None, 71), Some 11, Some 0) \<and>
   forward_blocks_range example_model 0 (Some 0) (Some [10, 20, 30]) () 0 1 =
     Inr (11, Some 0) \<and>
   forward_blocks_range example_model 0 (Some 0) (Some [10, 20, 30]) () 0 2 =
     Inr (44, Some 11) \<and>
   forward_blocks_range example_model 11 (Some 0) (Some [10, 20, 30]) () 1 2 =
     Inr (34, Some 11)"
  by (simp add: executor_eval)

section \<open>Properties of the attention operator\<close>





lemma bit_length_pos: "0 < n \<Longrightarrow> 0 < bit_length n"
  by (subst bit_length.simps) simp

lemma bit_length_lower: "0 < n \<Longrightarrow> 2 ^ (bit_length n - 1) \<le> n"
proof (induction n rule: bit_length.induct)
  case (1 n)
  show ?case
  proof (cases "n div 2 = 0")
    case True
    then have "bit_length n = 1" using 1(2)
      by (subst bit_length.simps) (simp add: bit_length.simps)
    then show ?thesis using 1(2) by simp
  next
    case False
    then have pos: "0 < n div 2" by simp
    have "2 ^ (bit_length (n div 2) - 1) \<le> n div 2" using 1 pos by simp
    moreover have "bit_length n = Suc (bit_length (n div 2))"
      using 1(2) by (subst bit_length.simps) simp
    moreover have "0 < bit_length (n div 2)" using pos by (rule bit_length_pos)
    ultimately have "2 ^ (bit_length n - 1) \<le> 2 * (n div 2)"
      by (cases "bit_length (n div 2)") simp_all
    also have "\<dots> \<le> n" by simp
    finally show ?thesis .
  qed
qed


text \<open>
  The rounding is to the nearest: for a quotient \<open>a / b \<ge> 1\<close> below \<open>2 ^ 53\<close> the result
  \<open>(n, s)\<close> has a significand \<open>n\<close> of 53 bits that differs from \<open>a / b * 2 ^ s\<close> by at
  most one half.
\<close>

lemma bit_length_upper: "n < 2 ^ bit_length n"
proof (induction n rule: bit_length.induct)
  case (1 n)
  show ?case
  proof (cases "n = 0")
    case True
    then show ?thesis by (subst bit_length.simps) simp
  next
    case False
    then have "n div 2 < 2 ^ bit_length (n div 2)" using 1 by simp
    then have "n < 2 * 2 ^ bit_length (n div 2)" by linarith
    moreover have "bit_length n = Suc (bit_length (n div 2))"
      using False by (subst bit_length.simps) simp
    ultimately show ?thesis by simp
  qed
qed

lemma round_half_even_nearest:
  fixes num den :: nat
  assumes "0 < den"
  defines "f \<equiv> num div den" and "r \<equiv> num mod den"
  defines "n \<equiv> (if 2 * r < den then f else if den < 2 * r then f + 1
                  else if even f then f else f + 1)"
  shows "2 * n * den \<le> 2 * num + den \<and> 2 * num \<le> 2 * n * den + den"
proof -
  have num: "num = f * den + r" by (simp add: f_def r_def)
  have r: "r < den" using assms(1) by (simp add: r_def)
  have a: "2 * f * den \<le> 2 * num + den" "2 * (f + 1) * den \<le> 2 * num + den \<or> 2 * r < den"
    using num r by (auto simp: algebra_simps)
  have b: "2 * num \<le> 2 * (f + 1) * den + den" "2 * num \<le> 2 * f * den + den \<or> den < 2 * r"
    using num r by (auto simp: algebra_simps)
  show ?thesis using a b unfolding n_def by (auto split: if_splits)
qed

lemma round_double_nearest:
  assumes "0 < b" and "b \<le> a" and "round_double a b = (n, s)" and "0 \<le> s"
  shows "2 * n * b \<le> 2 * (a * 2 ^ nat s) + b \<and> 2 * (a * 2 ^ nat s) \<le> 2 * n * b + b"
    and "2 ^ 52 \<le> n \<and> n \<le> 2 ^ 53"
proof -
  define q where "q = a div b"
  define k where "k = bit_length q - 1"
  have q_pos: "0 < q" using assms(1,2) by (simp add: q_def div_greater_zero_iff)
  have bl: "0 < bit_length q" using q_pos by (rule bit_length_pos)
  have k_le: "2 ^ k \<le> q" unfolding k_def using q_pos by (rule bit_length_lower)
  have "q < 2 ^ bit_length q" by (rule bit_length_upper)
  then have k_gt: "q < 2 ^ Suc k" using bl by (simp add: k_def)
  have e: "binary_exponent a b = int k"
    using assms(2) bl by (simp add: binary_exponent_def q_def k_def)
  have s: "s = 52 - int k" using assms(3) by (auto simp: round_double_def e Let_def)
  define t where "t = nat s"
  have st: "s = int t" and kt: "k + t = 52" using assms(4) s by (simp_all add: t_def)
  define num where "num = a * 2 ^ t"
  define f where "f = num div b"
  define r where "r = num mod b"
  have n: "n = (if 2 * r < b then f else if b < 2 * r then f + 1
                else if even f then f else f + 1)"
    using assms(3) by (auto simp: round_double_def e st Let_def f_def r_def num_def)
  show "2 * n * b \<le> 2 * (a * 2 ^ nat s) + b \<and> 2 * (a * 2 ^ nat s) \<le> 2 * n * b + b"
    using round_half_even_nearest [OF assms(1), of num]
    unfolding n f_def r_def num_def t_def by simp
  have qb: "q * b \<le> a" and qb': "a < (q + 1) * b"
    using assms(1) by (simp_all add: q_def dividend_less_times_div mult.commute)
  have "2 ^ 52 * b = (2 ^ k * 2 ^ t) * b" using kt by (simp add: power_add [symmetric])
  also have "\<dots> \<le> (q * 2 ^ t) * b" using k_le by simp
  also have "\<dots> = (q * b) * 2 ^ t" by (simp add: mult_ac)
  also have "\<dots> \<le> num" unfolding num_def using qb by simp
  finally have lo: "2 ^ 52 \<le> f"
    unfolding f_def using assms(1) by (simp add: less_eq_div_iff_mult_less_eq)
  have "q + 1 \<le> 2 ^ Suc k" using k_gt by simp
  then have "(q + 1) * b \<le> 2 ^ Suc k * b" by (rule mult_le_mono1)
  with qb' have "a < 2 ^ Suc k * b" by linarith
  then have "a * 2 ^ t < (2 ^ Suc k * b) * 2 ^ t" by simp
  also have "\<dots> = (2 ^ Suc k * 2 ^ t) * b" by (simp add: mult_ac)
  also have "\<dots> = 2 ^ 53 * b" using kt by (simp add: power_add [symmetric])
  finally have "f < 2 ^ 53"
    unfolding f_def num_def using assms(1) by (simp add: div_less_iff_less_mult)
  then show "2 ^ 52 \<le> n \<and> n \<le> 2 ^ 53" using lo unfolding n by auto
qed



































end
